theory Spec2Isabelle
  imports Main "HOL-Library.Sublist" "HOL-Library.Code_Target_Numeral"
begin

section \<open>Characters and decimal numbers\<close>

text \<open>
  The transpiler (\<^verbatim>\<open>src/transpiler.cpp\<close>) reads its input with
  \<^verbatim>\<open>std::getline\<close> and \<^verbatim>\<open>operator>>\<close> on a
  \<^verbatim>\<open>std::istringstream\<close> in the classic locale. White space is what
  \<^verbatim>\<open>isspace\<close> accepts there: the blank and the control characters 9 to 13.
\<close>

definition isspace :: "char \<Rightarrow> bool" where
  "isspace c = (c = CHR '' '' \<or> c = CHR 0x09 \<or> c = CHR ''\<newline>'' \<or> c = CHR 0x0B
                \<or> c = CHR 0x0C \<or> c = CHR 0x0D)"

definition isdigit :: "char \<Rightarrow> bool" where
  "isdigit c = ((48::nat) \<le> of_char c \<and> of_char c \<le> (57::nat))"

definition digit_val :: "char \<Rightarrow> nat" where
  "digit_val c = of_char c - (48::nat)"

definition digit_char :: "nat \<Rightarrow> char" where
  "digit_char d = char_of (48 + d)"

text \<open>The value of a string of decimal digits, most significant digit first.\<close>

definition dec_val :: "string \<Rightarrow> int" where
  "dec_val ds = foldl (\<lambda>a c. 10 * a + int (digit_val c)) 0 ds"

text \<open>
  \<^verbatim>\<open>ostream << n\<close> for an unsigned (\<^verbatim>\<open>size_t\<close>) and for a signed
  (\<^verbatim>\<open>int\<close>) number: decimal, no padding, a minus sign for negative values.
\<close>

fun show_nat :: "nat \<Rightarrow> string" where
  "show_nat n = (if n < 10 then [digit_char n] else show_nat (n div 10) @ [digit_char (n mod 10)])"

declare show_nat.simps [simp del]

definition show_int :: "int \<Rightarrow> string" where
  "show_int i = (if i < 0 then CHR ''-'' # show_nat (nat (- i)) else show_nat (nat i))"

definition INT_MAX :: int where
  "INT_MAX = 2147483647"

definition INT_MIN :: int where
  "INT_MIN = - 2147483648"

section \<open>Formatted input\<close>

text \<open>
  An input string stream: the characters not yet read, and whether \<^verbatim>\<open>failbit\<close>
  is set. (\<^verbatim>\<open>eofbit\<close> is set exactly when a read ran into the end of the
  buffer; then nothing is left, and the next extraction fails as it does on an empty rest.)
\<close>

record istringstream =
  rest :: string
  failbit :: bool

definition istringstream_of :: "string \<Rightarrow> istringstream" where
  "istringstream_of s = \<lparr>rest = s, failbit = False\<rparr>"

text \<open>
  \<^verbatim>\<open>iss >> str\<close> for a \<^verbatim>\<open>std::string\<close>: on a failed stream nothing
  happens; otherwise leading white space is skipped; at the end of the buffer the sentry
  sets \<^verbatim>\<open>failbit\<close> and the variable keeps its value; otherwise the variable
  becomes the characters up to the next white space. The second argument is the
  variable's value before the call.
\<close>

definition get_string :: "istringstream \<Rightarrow> string \<Rightarrow> istringstream \<times> string" where
  "get_string s v =
     (if failbit s then (s, v)
      else let r = dropWhile isspace (rest s) in
        if r = [] then (\<lparr>rest = [], failbit = True\<rparr>, v)
        else (\<lparr>rest = dropWhile (\<lambda>c. \<not> isspace c) r, failbit = False\<rparr>,
              takeWhile (\<lambda>c. \<not> isspace c) r))"

text \<open>
  \<^verbatim>\<open>iss >> n\<close> for an \<^verbatim>\<open>int\<close> (decimal): on a failed stream, and at
  the end of the buffer, the variable keeps its value. Otherwise an optional sign and the
  digits after it are read. With no digit the variable becomes 0 and \<^verbatim>\<open>failbit\<close>
  is set; a value outside the range of \<^verbatim>\<open>int\<close> is stored as the nearest bound,
  with \<^verbatim>\<open>failbit\<close> set (the rule of C++11 and later, which the source, using
  structured bindings, is compiled under).
\<close>

definition unsigned_part :: "string \<Rightarrow> string" where
  "unsigned_part r = (if r \<noteq> [] \<and> (hd r = CHR ''-'' \<or> hd r = CHR ''+'') then tl r else r)"

definition number_digits :: "string \<Rightarrow> string" where
  "number_digits r = takeWhile isdigit (unsigned_part r)"

text \<open>The number the sign and the digits denote, before it is fitted into an \<^verbatim>\<open>int\<close>.\<close>

definition signed_value :: "string \<Rightarrow> int" where
  "signed_value r =
     (if r \<noteq> [] \<and> hd r = CHR ''-'' then - dec_val (number_digits r) else dec_val (number_digits r))"

definition get_int :: "istringstream \<Rightarrow> int \<Rightarrow> istringstream \<times> int" where
  "get_int s v =
     (if failbit s then (s, v)
      else let r = dropWhile isspace (rest s) in
        if r = [] then (\<lparr>rest = [], failbit = True\<rparr>, v)
        else let ds = number_digits r;
                 after = dropWhile isdigit (unsigned_part r);
                 n = signed_value r
             in if ds = [] then (\<lparr>rest = after, failbit = True\<rparr>, 0)
                else if n > INT_MAX then (\<lparr>rest = after, failbit = True\<rparr>, INT_MAX)
                else if n < INT_MIN then (\<lparr>rest = after, failbit = True\<rparr>, INT_MIN)
                else (\<lparr>rest = after, failbit = False\<rparr>, n))"

text \<open>\<^verbatim>\<open>iss >> key\<close>, where the value read into \<^verbatim>\<open>key\<close> is never used.\<close>

definition skip_key :: "istringstream \<Rightarrow> istringstream" where
  "skip_key s = fst (get_string s [])"

text \<open>
  \<^verbatim>\<open>while (std::getline(in, line))\<close>: the lines of a text. A line ends at a
  line feed or at the end of the text; the loop stops when nothing is left, so a text that
  ends in a line feed has no empty last line. The first argument is the line read so far.
\<close>

fun getlines_from :: "string \<Rightarrow> string \<Rightarrow> string list" where
  "getlines_from cur [] = (if cur = [] then [] else [cur])"
| "getlines_from cur (c # cs) =
     (if c = CHR ''\<newline>'' then cur # getlines_from [] cs else getlines_from (cur @ [c]) cs)"

definition getlines :: "string \<Rightarrow> string list" where
  "getlines text = getlines_from [] text"

section \<open>The parser loop of \<^verbatim>\<open>main\<close> and \<^verbatim>\<open>testParser\<close>\<close>

text \<open>
  The three variables the loop fills: \<^verbatim>\<open>modelName\<close>, \<^verbatim>\<open>inputSize\<close>
  and \<^verbatim>\<open>layers\<close>, a vector of pairs of a unit count and the activation token.
\<close>

record model_spec =
  modelName :: string
  inputSize :: int
  layers :: "(int \<times> string) list"

definition initial_spec :: model_spec where
  "initial_spec = \<lparr>modelName = [], inputSize = 0, layers = []\<rparr>"

text \<open>
  One iteration of the loop body. \<^verbatim>\<open>line.find("model") == 0\<close> holds exactly
  when the line starts with the word. The local \<^verbatim>\<open>int units;\<close> of the
  \<^verbatim>\<open>layer\<close> branch is not initialised: when the stream has already failed
  before the number is reached, the pair is built from whatever the variable holds (in
  C++ the read is undefined behaviour; the model lets it be any value). That value is the
  parameter \<open>u\<close>.
\<close>

definition parse_line :: "int \<Rightarrow> model_spec \<Rightarrow> string \<Rightarrow> model_spec" where
  "parse_line u st line =
     (let iss = istringstream_of line in
      if prefix ''model'' line then
        st\<lparr>modelName := snd (get_string (skip_key iss) (modelName st))\<rparr>
      else if prefix ''input'' line then
        st\<lparr>inputSize := snd (get_int (skip_key (skip_key (skip_key iss))) (inputSize st))\<rparr>
      else if prefix ''layer'' line then
        (let (s3, units) = get_int (skip_key (skip_key iss)) u;
             activation = snd (get_string (skip_key (skip_key s3)) [])
         in st\<lparr>layers := layers st @ [(units, activation)]\<rparr>)
      else st)"

text \<open>
  The whole loop. \<open>uninit k\<close> is the content of the uninitialised \<^verbatim>\<open>units\<close>
  in iteration \<open>k\<close>; the second argument counts the iterations.
\<close>

fun parse_lines :: "(nat \<Rightarrow> int) \<Rightarrow> nat \<Rightarrow> model_spec \<Rightarrow> string list \<Rightarrow> model_spec" where
  "parse_lines uninit k st [] = st"
| "parse_lines uninit k st (line # ls) = parse_lines uninit (Suc k) (parse_line (uninit k) st line) ls"

definition parse :: "(nat \<Rightarrow> int) \<Rightarrow> string \<Rightarrow> model_spec" where
  "parse uninit text = parse_lines uninit 0 initial_spec (getlines text)"

text \<open>
  The test of \<^verbatim>\<open>main\<close> before it generates:
  \<^verbatim>\<open>!modelName.empty() && inputSize > 0 && !layers.empty()\<close>.
\<close>

definition valid :: "model_spec \<Rightarrow> bool" where
  "valid sp = (modelName sp \<noteq> [] \<and> inputSize sp > 0 \<and> layers sp \<noteq> [])"

section \<open>The generators\<close>

text \<open>
  \<^verbatim>\<open>v[i]\<close> on a \<^verbatim>\<open>std::vector\<close> is not checked; outside the vector the
  behaviour is undefined. The model makes that a failure of the generator.
\<close>

definition at :: "'a list \<Rightarrow> nat \<Rightarrow> 'a option" where
  "at xs i = (if i < length xs then Some (xs ! i) else None)"

subsection \<open>\<^verbatim>\<open>generateModelClass\<close>: the Eigen emitter\<close>

text \<open>
  The output file stream \<^verbatim>\<open>std::ofstream outFile(modelName + ".cpp")\<close>: its
  path, whether the open succeeded, and what has been written. The source never tests the
  stream. When the open failed every \<^verbatim>\<open>outFile << ...\<close> does nothing, and
  no file is written. \<open>creatable\<close> says which paths can be opened for writing.
\<close>

record ofstream =
  path :: string
  is_open :: bool
  written :: string

definition open_ofstream :: "(string \<Rightarrow> bool) \<Rightarrow> string \<Rightarrow> ofstream" where
  "open_ofstream creatable p = \<lparr>path = p, is_open = creatable p, written = []\<rparr>"

definition put :: "ofstream \<Rightarrow> string \<Rightarrow> ofstream" where
  "put f s = (if is_open f then f\<lparr>written := written f @ s\<rparr> else f)"

text \<open>\<^verbatim>\<open>outFile.close()\<close>: the files on disk after the stream is closed.\<close>

definition close_ofstream :: "ofstream \<Rightarrow> (string \<times> string) list" where
  "close_ofstream f = (if is_open f then [(path f, written f)] else [])"

text \<open>What one iteration of the loop writes, for index \<open>i\<close> and the pair at that index.\<close>

definition eigen_layer :: "nat \<Rightarrow> int \<Rightarrow> string \<Rightarrow> string" where
  \<open>eigen_layer i units activation =
     ''        // Layer '' @ show_nat (i + 1) @ ''\<newline>''
     @ ''        Eigen::MatrixXd W'' @ show_nat (i + 1) @ '' = Eigen::MatrixXd::Random(''
         @ show_int units @ '', x.cols());\<newline>''
     @ ''        Eigen::VectorXd b'' @ show_nat (i + 1) @ '' = Eigen::VectorXd::Random(''
         @ show_int units @ '');\<newline>''
     @ ''        x = (W'' @ show_nat (i + 1) @ '' * x).colwise() + b'' @ show_nat (i + 1)
         @ '';\<newline>''
     @ (if activation = ''"relu"'' then ''        x = x.cwiseMax(0.0);\<newline>''
        else if activation = ''"sigmoid"'' then
          ''        x = 1.0 / (1.0 + (-x.array()).exp());\<newline>''
        else [])
     @ ''\<newline>''\<close>

function eigen_loop :: "(int \<times> string) list \<Rightarrow> nat \<Rightarrow> ofstream \<Rightarrow> ofstream option" where
  "eigen_loop ls i outFile =
     (if i < length ls then
        (case at ls i of
           None \<Rightarrow> None
         | Some (units, activation) \<Rightarrow>
             eigen_loop ls (i + 1) (put outFile (eigen_layer i units activation)))
      else Some outFile)"
  by pat_completeness auto
termination
  by (relation "measure (\<lambda>(ls, i, outFile). length ls - i)") auto

declare eigen_loop.simps [simp del]

text \<open>
  The function returns nothing; its effect is the file it leaves behind, if any. The
  result here is the list of files written: one file, or none when the stream could not be
  opened. The parameter \<^verbatim>\<open>inputSize\<close> is not used by the body.
\<close>

definition generateModelClass ::
    "(string \<Rightarrow> bool) \<Rightarrow> string \<Rightarrow> int \<Rightarrow> (int \<times> string) list \<Rightarrow> (string \<times> string) list option" where
  "generateModelClass creatable name isize ls =
     (case eigen_loop ls 0
             (put (open_ofstream creatable (name @ ''.cpp''))
                (''#include <Eigen/Dense>\<newline>\<newline>''
                 @ ''class '' @ name @ '' {\<newline>''
                 @ ''public:\<newline>''
                 @ ''    '' @ name @ ''() {}\<newline>\<newline>''
                 @ ''    Eigen::MatrixXd forward(const Eigen::MatrixXd& input) {\<newline>''
                 @ ''        Eigen::MatrixXd x = input;\<newline>'')) of
        None \<Rightarrow> None
      | Some outFile \<Rightarrow>
          Some (close_ofstream
                  (put outFile (''        return x;\<newline>'' @ ''    }\<newline>'' @ ''};\<newline>''))))"

subsection \<open>The numpy emitter of \<^verbatim>\<open>testPythonTranspilation\<close>\<close>

text \<open>
  The source builds the Python text inside its self-test, from three local variables. The
  model takes them as parameters; the self-test below calls it with the values the source
  gives them.
\<close>

definition py_init_layer :: "nat \<Rightarrow> int \<Rightarrow> int \<Rightarrow> string" where
  "py_init_layer i units cols =
     ''        self.W'' @ show_nat (i + 1) @ '' = np.random.rand('' @ show_int units @ '', ''
         @ show_int cols @ '')\<newline>''
     @ ''        self.b'' @ show_nat (i + 1) @ '' = np.random.rand('' @ show_int units
         @ '')\<newline>''"

function py_init_loop :: "int \<Rightarrow> (int \<times> string) list \<Rightarrow> nat \<Rightarrow> string \<Rightarrow> string option" where
  "py_init_loop isize ls i out =
     (if i < length ls then
        (case (at ls i, if i = 0 then Some isize else map_option fst (at ls (i - 1))) of
           (Some (units, activation), Some cols) \<Rightarrow>
             py_init_loop isize ls (i + 1) (out @ py_init_layer i units cols)
         | _ \<Rightarrow> None)
      else Some out)"
  by pat_completeness auto
termination
  by (relation "measure (\<lambda>(isize, ls, i, out). length ls - i)") auto

declare py_init_loop.simps [simp del]

definition py_forward_layer :: "nat \<Rightarrow> string \<Rightarrow> string" where
  \<open>py_forward_layer i activation =
     ''        x = np.dot(self.W'' @ show_nat (i + 1) @ '', x) + self.b'' @ show_nat (i + 1)
         @ ''\<newline>''
     @ (if activation = ''"relu"'' then ''        x = np.maximum(0, x)\<newline>''
        else if activation = ''"sigmoid"'' then ''        x = 1 / (1 + np.exp(-x))\<newline>''
        else [])\<close>

function py_forward_loop :: "(int \<times> string) list \<Rightarrow> nat \<Rightarrow> string \<Rightarrow> string option" where
  "py_forward_loop ls i out =
     (if i < length ls then
        (case at ls i of
           None \<Rightarrow> None
         | Some (units, activation) \<Rightarrow> py_forward_loop ls (i + 1) (out @ py_forward_layer i activation))
      else Some out)"
  by pat_completeness auto
termination
  by (relation "measure (\<lambda>(ls, i, out). length ls - i)") auto

declare py_forward_loop.simps [simp del]

definition pythonCode :: "string \<Rightarrow> int \<Rightarrow> (int \<times> string) list \<Rightarrow> string option" where
  "pythonCode name isize ls =
     (case py_init_loop isize ls 0
             (''import numpy as np\<newline>\<newline>''
              @ ''class '' @ name @ '':\<newline>''
              @ ''    def __init__(self):\<newline>'') of
        None \<Rightarrow> None
      | Some out1 \<Rightarrow>
          (case py_forward_loop ls 0
                  (out1 @ ''\<newline>    def forward(self, x):\<newline>''
                        @ ''        x = np.array(x)\<newline>'') of
             None \<Rightarrow> None
           | Some out2 \<Rightarrow> Some (out2 @ ''        return x\<newline>'')))"

section \<open>The self-tests and \<^verbatim>\<open>main\<close>\<close>

text \<open>
  Each self-test is the conjunction of its \<^verbatim>\<open>assert\<close>s: \<open>True\<close> when the
  function returns, \<open>False\<close> when an assertion fails and the program aborts (the
  assertions are compiled in: the source does not define \<^verbatim>\<open>NDEBUG\<close>).
\<close>

definition testInput :: string where
  \<open>testInput =
     ''\<newline>        model TestModel {\<newline>            input: size=4\<newline>''
     @ ''            layer: units=8, activation="relu"\<newline>''
     @ ''            layer: units=2, activation="sigmoid"\<newline>''
     @ ''        }\<newline>    ''\<close>

definition testParser :: "(nat \<Rightarrow> int) \<Rightarrow> bool" where
  \<open>testParser uninit =
     (let sp = parse uninit testInput in
      modelName sp = ''TestModel''
      \<and> inputSize sp = 4
      \<and> length (layers sp) = 2
      \<and> at (layers sp) 0 = Some (8, ''"relu"'')
      \<and> at (layers sp) 1 = Some (2, ''"sigmoid"''))\<close>

definition testPythonTranspilation :: bool where
  \<open>testPythonTranspilation =
     (case pythonCode ''TestModel'' 4 [(8, ''"relu"''), (2, ''"sigmoid"'')] of
        None \<Rightarrow> False
      | Some code \<Rightarrow> sublist ''class TestModel'' code \<and> sublist ''def forward'' code)\<close>

text \<open>
  A run of the program ends by returning from \<^verbatim>\<open>main\<close> or by the
  \<^verbatim>\<open>abort\<close> of a failed assertion. What it leaves behind: the two output
  streams and the files written. (The message of a failed assertion is
  implementation-defined and not part of \<open>stderr\<close> here.)
\<close>

datatype outcome = Exit int | Abort

record run =
  status :: outcome
  stdout :: string
  stderr :: string
  files :: "(string \<times> string) list"

text \<open>
  \<open>argv\<close> is the argument vector, the program's name first, so \<^verbatim>\<open>argc\<close> is
  its length. \<open>fs\<close> maps a path to the content of the file there, \<open>None\<close> when the
  file cannot be opened for reading; \<open>creatable\<close> says which paths can be opened for
  writing. After \<^verbatim>\<open>generateModelClass\<close> the program prints its success line and
  returns 0 whether or not the file was written. A generator that read outside its vector
  would end the run abnormally; \<open>generateModelClass_files\<close> below shows that it never does.
\<close>

definition main ::
    "(nat \<Rightarrow> int) \<Rightarrow> (string \<Rightarrow> string option) \<Rightarrow> (string \<Rightarrow> bool) \<Rightarrow> string list \<Rightarrow> run" where
  "main uninit fs creatable argv =
     (if length argv = 2 then
        (case fs (argv ! 1) of
           None \<Rightarrow>
             \<lparr>status = Exit 1, stdout = [],
              stderr = ''Error: Could not open file '' @ argv ! 1 @ ''\<newline>'', files = []\<rparr>
         | Some text \<Rightarrow>
             (let sp = parse uninit text in
              if valid sp then
                (case generateModelClass creatable (modelName sp) (inputSize sp) (layers sp) of
                   None \<Rightarrow> \<lparr>status = Abort, stdout = [], stderr = [], files = []\<rparr>
                 | Some written_files \<Rightarrow>
                     \<lparr>status = Exit 0,
                      stdout = ''Model class generated successfully: '' @ modelName sp
                               @ ''.cpp\<newline>'',
                      stderr = [], files = written_files\<rparr>)
              else
                \<lparr>status = Exit 1, stdout = [],
                 stderr = ''Error: Invalid input format.\<newline>'', files = []\<rparr>))
      else if \<not> testParser uninit then
        \<lparr>status = Abort, stdout = [], stderr = [], files = []\<rparr>
      else if \<not> testPythonTranspilation then
        \<lparr>status = Abort, stdout = ''Parser test passed.\<newline>'', stderr = [], files = []\<rparr>
      else
        \<lparr>status = Exit 0,
         stdout = ''Parser test passed.\<newline>'' @ ''Python transpilation test passed.\<newline>'',
         stderr = [], files = []\<rparr>)"

section \<open>Notions used in the statements\<close>

text \<open>
  The white-space separated tokens of a line, in order: what successive
  \<^verbatim>\<open>iss >> key\<close> extractions deliver.
\<close>

function tokens :: "string \<Rightarrow> string list" where
  "tokens s =
     (let r = dropWhile isspace s in
      if r = [] then [] else takeWhile (\<lambda>c. \<not> isspace c) r # tokens (dropWhile (\<lambda>c. \<not> isspace c) r))"
  by pat_completeness auto
termination
proof (relation "measure length")
  show "wf (measure length)" by simp
next
  fix s r :: string
  assume r: "r = dropWhile isspace s" and ne: "r \<noteq> []"
  then obtain c r' where cr: "r = c # r'" by (cases r) blast+
  from r ne have "dropWhile isspace s \<noteq> []" by blast
  then have "\<not> isspace (hd (dropWhile isspace s))"
    by (rule hd_dropWhile)
  then have "\<not> isspace c" using r cr by (metis list.sel(1))
  then have "dropWhile (\<lambda>c. \<not> isspace c) r = dropWhile (\<lambda>c. \<not> isspace c) r'" using cr by simp
  moreover have "length (dropWhile (\<lambda>c. \<not> isspace c) r') \<le> length r'" by (rule length_dropWhile_le)
  moreover have "length r \<le> length s" using r by (simp add: length_dropWhile_le)
  ultimately show "(dropWhile (\<lambda>c. \<not> isspace c) r, s) \<in> measure length" using cr by simp
qed

declare tokens.simps [simp del]

text \<open>
  What \<^verbatim>\<open>iss >> n\<close> stores when the next token is \<open>w\<close>, and whether it sets
  \<^verbatim>\<open>failbit\<close>.
\<close>

definition int_of_token :: "string \<Rightarrow> int" where
  "int_of_token w = snd (get_int (istringstream_of w) 0)"

definition int_fails :: "string \<Rightarrow> bool" where
  "int_fails w = failbit (fst (get_int (istringstream_of w) 0))"

text \<open>An uninitialised \<^verbatim>\<open>units\<close> that happens to hold 0 in every iteration.\<close>

definition all_zero :: "nat \<Rightarrow> int" where
  "all_zero k = 0"

text \<open>
  File systems for the examples: one in which every path opens for reading and holds the
  same document; one in which every file can be created; and one that lacks the directory
  \<^verbatim>\<open>nodir\<close>, so that no file can be created in it.
\<close>

definition single_file :: "string \<Rightarrow> string \<Rightarrow> string option" where
  "single_file doc p = Some doc"

definition every_path :: "string \<Rightarrow> bool" where
  "every_path p = True"

definition nodir_missing :: "string \<Rightarrow> bool" where
  "nodir_missing p = (\<not> prefix ''nodir/'' p)"

text \<open>A text made of lines, each ended by a line feed.\<close>

definition unlines :: "string list \<Rightarrow> string" where
  "unlines ls = concat (map (\<lambda>l. l @ ''\<newline>'') ls)"


text \<open>
  The lines one iteration of each loop writes: the text of the iteration is these lines,
  each with its line feed (lemmas \<open>py_init_layer_lines\<close>, \<open>py_forward_layer_lines\<close> and
  \<open>eigen_layer_lines\<close> below).
\<close>

definition py_init_lines :: "nat \<Rightarrow> int \<Rightarrow> int \<Rightarrow> string list" where
  "py_init_lines i units cols =
     [''        self.W'' @ show_nat (i + 1) @ '' = np.random.rand('' @ show_int units @ '', ''
         @ show_int cols @ '')'',
      ''        self.b'' @ show_nat (i + 1) @ '' = np.random.rand('' @ show_int units @ '')'']"

definition py_forward_lines :: "nat \<Rightarrow> string \<Rightarrow> string list" where
  \<open>py_forward_lines i activation =
     (''        x = np.dot(self.W'' @ show_nat (i + 1) @ '', x) + self.b'' @ show_nat (i + 1))
     # (if activation = ''"relu"'' then [''        x = np.maximum(0, x)'']
        else if activation = ''"sigmoid"'' then [''        x = 1 / (1 + np.exp(-x))'']
        else [])\<close>

definition eigen_layer_lines :: "nat \<Rightarrow> int \<Rightarrow> string \<Rightarrow> string list" where
  \<open>eigen_layer_lines i units activation =
     [''        // Layer '' @ show_nat (i + 1),
      ''        Eigen::MatrixXd W'' @ show_nat (i + 1) @ '' = Eigen::MatrixXd::Random(''
         @ show_int units @ '', x.cols());'',
      ''        Eigen::VectorXd b'' @ show_nat (i + 1) @ '' = Eigen::VectorXd::Random(''
         @ show_int units @ '');'',
      ''        x = (W'' @ show_nat (i + 1) @ '' * x).colwise() + b'' @ show_nat (i + 1) @ '';'']
     @ (if activation = ''"relu"'' then [''        x = x.cwiseMax(0.0);'']
        else if activation = ''"sigmoid"'' then [''        x = 1.0 / (1.0 + (-x.array()).exp());'']
        else [])
     @ ['''']\<close>

text \<open>
  Each generated text is a head, which holds the model name, and a body of lines after it.
\<close>

definition py_head :: "string \<Rightarrow> string" where
  "py_head name = ''import numpy as np\<newline>\<newline>'' @ ''class '' @ name @ '':\<newline>''
                  @ ''    def __init__(self):\<newline>''"

definition py_body :: "int \<Rightarrow> (int \<times> string) list \<Rightarrow> string list" where
  "py_body isize ls =
     concat (map (\<lambda>j. py_init_lines j (fst (ls ! j)) (if j = 0 then isize else fst (ls ! (j - 1))))
               [0..<length ls])
     @ ['''', ''    def forward(self, x):'', ''        x = np.array(x)'']
     @ concat (map (\<lambda>j. py_forward_lines j (snd (ls ! j))) [0..<length ls])
     @ [''        return x'']"

definition eigen_head :: "string \<Rightarrow> string" where
  "eigen_head name = ''#include <Eigen/Dense>\<newline>\<newline>'' @ ''class '' @ name @ '' {\<newline>''
                     @ ''public:\<newline>'' @ ''    '' @ name @ ''() {}\<newline>\<newline>''
                     @ ''    Eigen::MatrixXd forward(const Eigen::MatrixXd& input) {\<newline>''
                     @ ''        Eigen::MatrixXd x = input;\<newline>''"

definition eigen_body :: "(int \<times> string) list \<Rightarrow> string list" where
  "eigen_body ls =
     concat (map (\<lambda>j. eigen_layer_lines j (fst (ls ! j)) (snd (ls ! j))) [0..<length ls])
     @ [''        return x;'', ''    }'', ''};'']"

section \<open>Tokens and extraction\<close>

lemma tokens_Nil_iff: "tokens s = [] \<longleftrightarrow> dropWhile isspace s = []"
  by (subst tokens.simps) (simp add: Let_def)

lemma tokens_Cons:
  "tokens s = w # ws \<Longrightarrow>
     w = takeWhile (\<lambda>c. \<not> isspace c) (dropWhile isspace s)
     \<and> ws = tokens (dropWhile (\<lambda>c. \<not> isspace c) (dropWhile isspace s))"
  by (subst (asm) tokens.simps) (simp add: Let_def split: if_splits)

lemma get_string_fail: "failbit s \<Longrightarrow> get_string s v = (s, v)"
  by (simp add: get_string_def)

lemma get_string_empty:
  "\<not> failbit s \<Longrightarrow> tokens (rest s) = [] \<Longrightarrow> get_string s v = (\<lparr>rest = [], failbit = True\<rparr>, v)"
  by (simp add: get_string_def tokens_Nil_iff)

lemma get_string_token:
  assumes "\<not> failbit s" and "tokens (rest s) = w # ws"
  shows "snd (get_string s v) = w" and "\<not> failbit (fst (get_string s v))"
    and "tokens (rest (fst (get_string s v))) = ws"
proof -
  have ne: "dropWhile isspace (rest s) \<noteq> []"
    using assms(2) tokens_Nil_iff[of "rest s"] by auto
  show "snd (get_string s v) = w" "\<not> failbit (fst (get_string s v))"
    "tokens (rest (fst (get_string s v))) = ws"
    using assms(1) ne tokens_Cons[OF assms(2)]
    by (simp_all add: get_string_def Let_def del: dropWhile_eq_Nil_conv)
qed


lemma tokens_Nil [simp]: "tokens [] = []"
  by (simp add: tokens_Nil_iff)

lemma tokens_step:
  "tokens (c # cs) =
     (if isspace c then tokens cs
      else takeWhile (\<lambda>c. \<not> isspace c) (c # cs) # tokens (dropWhile (\<lambda>c. \<not> isspace c) (c # cs)))"
proof (cases "isspace c")
  case True
  then show ?thesis
    by (subst tokens.simps, subst (2) tokens.simps) (simp add: Let_def)
next
  case False
  then show ?thesis
    by (subst tokens.simps) (simp add: Let_def)
qed

lemma token_chars: "w \<in> set (tokens s) \<Longrightarrow> w \<noteq> [] \<and> (\<forall>c\<in>set w. \<not> isspace c)"
proof (induction s arbitrary: w rule: tokens.induct)
  case (1 s)
  let ?r = "dropWhile isspace s"
  show ?case
  proof (cases "?r = []")
    case True
    then have "tokens s = []" by (simp add: tokens_Nil_iff del: dropWhile_eq_Nil_conv)
    with "1.prems" show ?thesis by simp
  next
    case False
    then have ts: "tokens s = takeWhile (\<lambda>c. \<not> isspace c) ?r # tokens (dropWhile (\<lambda>c. \<not> isspace c) ?r)"
      by (subst tokens.simps) (simp add: Let_def del: dropWhile_eq_Nil_conv)
    from False have hd: "\<not> isspace (hd ?r)" by (rule hd_dropWhile)
    from False obtain c r' where cr: "?r = c # r'" by (cases ?r) blast+
    have first: "takeWhile (\<lambda>c. \<not> isspace c) ?r \<noteq> []" using hd cr by simp
    have chars: "\<forall>c\<in>set (takeWhile (\<lambda>c. \<not> isspace c) ?r). \<not> isspace c"
      by (auto dest: set_takeWhileD)
    from "1.prems" ts have "w = takeWhile (\<lambda>c. \<not> isspace c) ?r \<or> w \<in> set (tokens (dropWhile (\<lambda>c. \<not> isspace c) ?r))"
      by simp
    then show ?thesis
    proof
      assume weq: "w = takeWhile (\<lambda>c. \<not> isspace c) ?r"
      show ?thesis unfolding weq by (rule conjI[OF first chars])
    next
      assume "w \<in> set (tokens (dropWhile (\<lambda>c. \<not> isspace c) ?r))"
      then show ?thesis using "1.IH"[OF refl False] by blast
    qed
  qed
qed

lemma skip_key_fail: "failbit s \<Longrightarrow> skip_key s = s"
  by (simp add: skip_key_def get_string_def)

lemma skip_key_empty: "\<not> failbit s \<Longrightarrow> tokens (rest s) = [] \<Longrightarrow> failbit (skip_key s)"
  by (simp add: skip_key_def get_string_empty)

lemma skip_key_token:
  "\<not> failbit s \<Longrightarrow> tokens (rest s) = w # ws \<Longrightarrow>
     \<not> failbit (skip_key s) \<and> tokens (rest (skip_key s)) = ws"
  using get_string_token(2,3)[of s w ws "[]"] by (simp add: skip_key_def)

lemma isdigit_not_space: "isdigit c \<Longrightarrow> \<not> isspace c"
  by (auto simp: isdigit_def isspace_def)

lemma takeWhile_digit_token:
  "takeWhile isdigit (takeWhile (\<lambda>c. \<not> isspace c) xs) = takeWhile isdigit xs"
  by (induction xs) (auto dest: isdigit_not_space)

lemma get_int_fail: "failbit s \<Longrightarrow> get_int s v = (s, v)"
  by (simp add: get_int_def)

lemma get_int_empty:
  "\<not> failbit s \<Longrightarrow> tokens (rest s) = [] \<Longrightarrow> get_int s v = (\<lparr>rest = [], failbit = True\<rparr>, v)"
  by (simp add: get_int_def tokens_Nil_iff)

lemma get_int_token:
  assumes "\<not> failbit s" and "tokens (rest s) = w # ws"
  shows "snd (get_int s v) = int_of_token w" and "failbit (fst (get_int s v)) = int_fails w"
proof -
  let ?r = "dropWhile isspace (rest s)"
  have ne: "?r \<noteq> []" using assms(2) tokens_Nil_iff[of "rest s"] by auto
  then have hd: "\<not> isspace (hd ?r)" by (rule hd_dropWhile)
  from ne obtain c r' where cr: "?r = c # r'" by (cases ?r) blast+
  have w: "w = c # takeWhile (\<lambda>c. \<not> isspace c) r'"
    using tokens_Cons[OF assms(2)] cr hd by simp
  have dw: "dropWhile isspace w = w" using w hd cr by simp
  have tw: "takeWhile isdigit w = takeWhile isdigit ?r"
    using takeWhile_digit_token[of ?r] cr hd w by simp
  have tw': "takeWhile isdigit (takeWhile (\<lambda>c. \<not> isspace c) r') = takeWhile isdigit r'"
    by (rule takeWhile_digit_token)
  show "snd (get_int s v) = int_of_token w"
    using assms(1) cr w tw' hd
    by (simp add: get_int_def int_of_token_def istringstream_of_def Let_def number_digits_def
        unsigned_part_def signed_value_def del: dropWhile_eq_Nil_conv)
  show "failbit (fst (get_int s v)) = int_fails w"
    using assms(1) cr w tw' hd
    by (simp add: get_int_def int_fails_def istringstream_of_def Let_def number_digits_def
        unsigned_part_def signed_value_def del: dropWhile_eq_Nil_conv)
qed

section \<open>One line of the document\<close>

lemma istringstream_of_simps [simp]:
  "rest (istringstream_of s) = s" "\<not> failbit (istringstream_of s)"
  by (simp_all add: istringstream_of_def)

lemma not_model_if_input: "prefix ''input'' l \<Longrightarrow> \<not> prefix ''model'' l"
  by (cases l) auto

lemma not_model_if_layer: "prefix ''layer'' l \<Longrightarrow> \<not> prefix ''model'' l"
  by (cases l) auto

lemma not_input_if_layer: "prefix ''layer'' l \<Longrightarrow> \<not> prefix ''input'' l"
  by (cases l) auto

text \<open>The stream after one, two and three keys have been skipped.\<close>

lemma skip1:
  "tokens line = a # ws \<Longrightarrow>
     \<not> failbit (skip_key (istringstream_of line))
     \<and> tokens (rest (skip_key (istringstream_of line))) = ws"
  by (rule skip_key_token) simp_all

lemma skip1_short: "tokens line = [] \<Longrightarrow> failbit (skip_key (istringstream_of line))"
  by (rule skip_key_empty) simp_all

lemma skip2:
  "tokens line = a # b # ws \<Longrightarrow>
     \<not> failbit (skip_key (skip_key (istringstream_of line)))
     \<and> tokens (rest (skip_key (skip_key (istringstream_of line)))) = ws"
  using skip1[of line a "b # ws"] skip_key_token[of "skip_key (istringstream_of line)" b ws]
  by simp

lemma skip2_short:
  "length (tokens line) < 2 \<Longrightarrow> failbit (skip_key (skip_key (istringstream_of line)))"
proof (cases "tokens line")
  case Nil
  then show ?thesis using skip1_short[of line] by (simp add: skip_key_fail)
next
  case (Cons a ws)
  assume "length (tokens line) < 2"
  with Cons have "ws = []" by simp
  with Cons show ?thesis using skip1[of line a "[]"] by (auto intro: skip_key_empty)
qed

lemma skip3:
  "tokens line = a # b # c # ws \<Longrightarrow>
     \<not> failbit (skip_key (skip_key (skip_key (istringstream_of line))))
     \<and> tokens (rest (skip_key (skip_key (skip_key (istringstream_of line))))) = ws"
  using skip2[of line a b "c # ws"]
    skip_key_token[of "skip_key (skip_key (istringstream_of line))" c ws]
  by simp

lemma skip3_short:
  "length (tokens line) < 3 \<Longrightarrow>
     failbit (skip_key (skip_key (skip_key (istringstream_of line))))"
proof (cases "length (tokens line) < 2")
  case True
  then show ?thesis using skip2_short[of line] by (simp add: skip_key_fail)
next
  case False
  assume "length (tokens line) < 3"
  with False obtain a b where "tokens line = [a, b]"
    by (cases "tokens line"; simp; rename_tac ws; case_tac ws; simp)
  then show ?thesis using skip2[of line a b "[]"] by (auto intro: skip_key_empty)
qed

lemma parse_line_model:
  assumes "prefix ''model'' line"
  shows "parse_line u st line =
           st\<lparr>modelName := (if 2 \<le> length (tokens line) then tokens line ! 1 else modelName st)\<rparr>"
proof (cases "length (tokens line) < 2")
  case True
  then show ?thesis
    using assms skip1_short[of line] skip1[of line]
    by (cases "tokens line") (auto simp: parse_line_def Let_def get_string_fail get_string_empty)
next
  case False
  then obtain a b ws where t: "tokens line = a # b # ws"
    by (cases "tokens line"; simp; rename_tac ws; case_tac ws; simp)
  from skip1[OF t] get_string_token(1)[of "skip_key (istringstream_of line)" b ws "modelName st"]
  have "snd (get_string (skip_key (istringstream_of line)) (modelName st)) = b" by simp
  then show ?thesis using assms t by (simp add: parse_line_def Let_def)
qed

lemma parse_line_input:
  assumes "prefix ''input'' line"
  shows "parse_line u st line =
           st\<lparr>inputSize := (if 4 \<le> length (tokens line) then int_of_token (tokens line ! 3)
                            else inputSize st)\<rparr>"
proof -
  let ?s3 = "skip_key (skip_key (skip_key (istringstream_of line)))"
  have "snd (get_int ?s3 (inputSize st)) =
          (if 4 \<le> length (tokens line) then int_of_token (tokens line ! 3) else inputSize st)"
  proof (cases "length (tokens line) < 3")
    case True
    then show ?thesis using skip3_short[of line] by (simp add: get_int_fail)
  next
    case False
    then obtain a b c ws where t: "tokens line = a # b # c # ws"
      by (cases "tokens line"; simp; rename_tac ws; case_tac ws; simp;
          rename_tac ws'; case_tac ws'; simp)
    show ?thesis
    proof (cases ws)
      case Nil
      then show ?thesis using skip3[OF t] t by (simp add: get_int_empty)
    next
      case (Cons d ws')
      then show ?thesis using skip3[OF t] t get_int_token(1)[of ?s3 d ws' "inputSize st"] by simp
    qed
  qed
  then show ?thesis
    using assms not_model_if_input[OF assms] by (simp add: parse_line_def Let_def)
qed

lemma parse_line_layer:
  assumes "prefix ''layer'' line"
  shows "\<exists>act. parse_line u st line =
             st\<lparr>layers := layers st @
                [(if 3 \<le> length (tokens line) then int_of_token (tokens line ! 2) else u, act)]\<rparr>
           \<and> (length (tokens line) < 3 \<or> int_fails (tokens line ! 2) \<longrightarrow> act = [])"
proof -
  let ?s2 = "skip_key (skip_key (istringstream_of line))"
  let ?s3 = "fst (get_int ?s2 u)"
  let ?act = "snd (get_string (skip_key (skip_key ?s3)) [])"
  have pl: "parse_line u st line = st\<lparr>layers := layers st @ [(snd (get_int ?s2 u), ?act)]\<rparr>"
    using assms not_model_if_layer[OF assms] not_input_if_layer[OF assms]
    by (simp add: parse_line_def Let_def split_def)
  have failed_act: "failbit ?s3 \<Longrightarrow> ?act = []"
    by (simp add: skip_key_fail get_string_fail)
  have "snd (get_int ?s2 u) = (if 3 \<le> length (tokens line) then int_of_token (tokens line ! 2) else u)
        \<and> (length (tokens line) < 3 \<or> int_fails (tokens line ! 2) \<longrightarrow> failbit ?s3)"
  proof (cases "length (tokens line) < 2")
    case True
    then show ?thesis using skip2_short[of line] by (simp add: get_int_fail)
  next
    case False
    then obtain a b ws where t: "tokens line = a # b # ws"
      by (cases "tokens line"; simp; rename_tac ws; case_tac ws; simp)
    show ?thesis
    proof (cases ws)
      case Nil
      then show ?thesis using skip2[OF t] t by (simp add: get_int_empty)
    next
      case (Cons c ws')
      then show ?thesis
        using skip2[OF t] t get_int_token[of ?s2 c ws' u] by simp
    qed
  qed
  then have "parse_line u st line =
             st\<lparr>layers := layers st @
                [(if 3 \<le> length (tokens line) then int_of_token (tokens line ! 2) else u, ?act)]\<rparr>
           \<and> (length (tokens line) < 3 \<or> int_fails (tokens line ! 2) \<longrightarrow> ?act = [])"
    using pl failed_act by simp
  then show ?thesis by (rule exI)
qed

lemma parse_line_other:
  "\<not> prefix ''model'' line \<Longrightarrow> \<not> prefix ''input'' line \<Longrightarrow> \<not> prefix ''layer'' line \<Longrightarrow>
     parse_line u st line = st"
  by (simp add: parse_line_def)

text \<open>The definitions that evaluate an extraction on a literal line.\<close>

lemmas stream_defs = get_string_def get_int_def skip_key_def istringstream_of_def signed_value_def
  isspace_def isdigit_def dec_val_def digit_val_def INT_MAX_def INT_MIN_def Let_def
  number_digits_def unsigned_part_def

section \<open>The loop over the lines\<close>

lemma modelName_parse_line:
  "modelName (parse_line u st l) =
     (if prefix ''model'' l \<and> 2 \<le> length (tokens l) then tokens l ! 1 else modelName st)"
proof -
  consider (m) "prefix ''model'' l" | (i) "prefix ''input'' l" | (y) "prefix ''layer'' l"
    | (o) "\<not> prefix ''model'' l" "\<not> prefix ''input'' l" "\<not> prefix ''layer'' l" by blast
  then show ?thesis
  proof cases
    case m
    then show ?thesis by (simp add: parse_line_model)
  next
    case i
    then show ?thesis using not_model_if_input[OF i] by (simp add: parse_line_input)
  next
    case y
    from parse_line_layer[OF y, of u st] obtain act where
      "parse_line u st l = st\<lparr>layers := layers st @
          [(if 3 \<le> length (tokens l) then int_of_token (tokens l ! 2) else u, act)]\<rparr>" by blast
    then show ?thesis using not_model_if_layer[OF y] by simp
  next
    case o
    then show ?thesis by (simp add: parse_line_other)
  qed
qed

lemma inputSize_parse_line:
  "inputSize (parse_line u st l) =
     (if prefix ''input'' l \<and> 4 \<le> length (tokens l) then int_of_token (tokens l ! 3)
      else inputSize st)"
proof -
  consider (m) "prefix ''model'' l" | (i) "prefix ''input'' l" | (y) "prefix ''layer'' l"
    | (o) "\<not> prefix ''model'' l" "\<not> prefix ''input'' l" "\<not> prefix ''layer'' l" by blast
  then show ?thesis
  proof cases
    case m
    then show ?thesis using not_model_if_input[of l] by (auto simp: parse_line_model)
  next
    case i
    then show ?thesis by (simp add: parse_line_input)
  next
    case y
    from parse_line_layer[OF y, of u st] obtain act where
      "parse_line u st l = st\<lparr>layers := layers st @
          [(if 3 \<le> length (tokens l) then int_of_token (tokens l ! 2) else u, act)]\<rparr>" by blast
    then show ?thesis using not_input_if_layer[OF y] by simp
  next
    case o
    then show ?thesis by (simp add: parse_line_other)
  qed
qed


lemma modelName_parse_lines:
  "modelName (parse_lines uninit k st ls) =
     (let ms = filter (\<lambda>l. prefix ''model'' l \<and> 2 \<le> length (tokens l)) ls
      in if ms = [] then modelName st else tokens (last ms) ! 1)"
proof (induction ls arbitrary: k st)
  case Nil
  then show ?case by simp
next
  case (Cons l ls)
  show ?case
    by (simp add: Cons.IH modelName_parse_line Let_def)
qed

lemma inputSize_parse_lines:
  "inputSize (parse_lines uninit k st ls) =
     (let ns = filter (\<lambda>l. prefix ''input'' l \<and> 4 \<le> length (tokens l)) ls
      in if ns = [] then inputSize st else int_of_token (tokens (last ns) ! 3))"
proof (induction ls arbitrary: k st)
  case Nil
  then show ?case by simp
next
  case (Cons l ls)
  show ?case
    by (simp add: Cons.IH inputSize_parse_line Let_def)
qed


lemma modelName_parse:
  "modelName (parse uninit doc) =
     (let ms = filter (\<lambda>l. prefix ''model'' l \<and> 2 \<le> length (tokens l)) (getlines doc)
      in if ms = [] then [] else tokens (last ms) ! 1)"
  by (simp add: parse_def modelName_parse_lines initial_spec_def Let_def)

lemma inputSize_parse:
  "inputSize (parse uninit doc) =
     (let ns = filter (\<lambda>l. prefix ''input'' l \<and> 4 \<le> length (tokens l)) (getlines doc)
      in if ns = [] then 0 else int_of_token (tokens (last ns) ! 3))"
  by (simp add: parse_def inputSize_parse_lines initial_spec_def Let_def)


lemma tokens_nth_chars:
  "i < length (tokens s) \<Longrightarrow> tokens s ! i \<noteq> [] \<and> (\<forall>c\<in>set (tokens s ! i). \<not> isspace c)"
  using token_chars[of "tokens s ! i" s] by simp

lemma int_of_token_range: "INT_MIN \<le> int_of_token w \<and> int_of_token w \<le> INT_MAX"
  by (simp add: int_of_token_def get_int_def Let_def INT_MIN_def INT_MAX_def)

lemma int_fails_values:
  "int_fails w \<Longrightarrow> int_of_token w = 0 \<or> int_of_token w = INT_MAX \<or> int_of_token w = INT_MIN"
  by (auto simp: int_of_token_def int_fails_def get_int_def Let_def split: if_splits)

lemma dropWhile_space_token: "w \<noteq> [] \<Longrightarrow> \<not> isspace (hd w) \<Longrightarrow> dropWhile isspace w = w"
  by (cases w) auto

lemma no_digits_zero:
  assumes "w \<noteq> []" "\<not> isspace (hd w)" "number_digits w = []"
  shows "int_of_token w = 0 \<and> int_fails w"
  using assms dropWhile_space_token[of w]
  by (simp add: int_of_token_def int_fails_def get_int_def Let_def)

lemma modelName_token:
  "modelName (parse uninit doc) = [] \<or>
     (\<forall>c\<in>set (modelName (parse uninit doc)). \<not> isspace c)"
proof -
  let ?ms = "filter (\<lambda>l. prefix ''model'' l \<and> 2 \<le> length (tokens l)) (getlines doc)"
  show ?thesis
  proof (cases "?ms = []")
    case True
    then show ?thesis using modelName_parse[of uninit doc] by (simp add: Let_def)
  next
    case False
    then have "last ?ms \<in> set ?ms" by (rule last_in_set)
    then have "1 < length (tokens (last ?ms))" by auto
    then have "\<forall>c\<in>set (tokens (last ?ms) ! 1). \<not> isspace c"
      using tokens_nth_chars by blast
    then show ?thesis using False modelName_parse[of uninit doc] by (simp add: Let_def)
  qed
qed

lemma inputSize_range:
  "INT_MIN \<le> inputSize (parse uninit doc) \<and> inputSize (parse uninit doc) \<le> INT_MAX"
proof -
  have "inputSize (parse uninit doc) = 0 \<or> (\<exists>w. inputSize (parse uninit doc) = int_of_token w)"
    using inputSize_parse[of uninit doc] by (auto simp: Let_def)
  then show ?thesis
    using int_of_token_range by (auto simp: INT_MIN_def INT_MAX_def)
qed

lemmas tokens_eval = tokens_step tokens_Nil isspace_def

lemma parse_initial_if_unrecognized:
  "\<forall>l\<in>set ls. \<not> prefix ''model'' l \<and> \<not> prefix ''input'' l \<and> \<not> prefix ''layer'' l \<Longrightarrow>
     parse_lines uninit k st ls = st"
  by (induction ls arbitrary: k) (simp_all add: parse_line_other)

lemma testParser_fails: "\<not> testParser uninit"
proof -
  have "parse uninit testInput = initial_spec"
    unfolding parse_def
    by (rule parse_initial_if_unrecognized) (simp add: testInput_def getlines_def)
  then show ?thesis by (simp add: testParser_def initial_spec_def)
qed

section \<open>Decimal output\<close>

lemma digit_char_isdigit: "d < 10 \<Longrightarrow> isdigit (digit_char d)"
  by (simp add: isdigit_def digit_char_def)


lemma show_nat_digits: "\<forall>c\<in>set (show_nat n). isdigit c"
proof (induction n rule: show_nat.induct)
  case (1 n)
  show ?case
  proof (cases "n < 10")
    case True
    then show ?thesis by (subst show_nat.simps) (simp add: digit_char_isdigit)
  next
    case False
    then show ?thesis using 1 by (subst show_nat.simps) (simp add: digit_char_isdigit)
  qed
qed

lemma show_nat_not_Nil: "show_nat n \<noteq> []"
  by (subst show_nat.simps) simp




lemma isdigit_not_newline: "isdigit c \<Longrightarrow> c \<noteq> CHR ''\<newline>''"
  by (auto simp: isdigit_def)

lemma show_nat_no_newline [simp]: "CHR ''\<newline>'' \<notin> set (show_nat n)"
  using show_nat_digits[of n] isdigit_not_newline by blast

lemma show_int_no_newline [simp]: "CHR ''\<newline>'' \<notin> set (show_int i)"
  by (simp add: show_int_def)


section \<open>The loops in closed form\<close>

lemma put_Nil [simp]: "put f [] = f"
  by (simp add: put_def)

lemma put_put: "put (put f a) b = put f (a @ b)"
  by (simp add: put_def)

lemma eigen_loop_closed:
  "eigen_loop ls i f =
     Some (put f (concat (map (\<lambda>j. eigen_layer j (fst (ls ! j)) (snd (ls ! j))) [i..<length ls])))"
proof (induction ls i f rule: eigen_loop.induct)
  case (1 ls i f)
  show ?case
  proof (cases "i < length ls")
    case True
    then have "eigen_loop ls i f =
                 eigen_loop ls (i + 1) (put f (eigen_layer i (fst (ls ! i)) (snd (ls ! i))))"
      by (subst eigen_loop.simps) (simp add: at_def split_def)
    also have "\<dots> = Some (put (put f (eigen_layer i (fst (ls ! i)) (snd (ls ! i))))
                (concat (map (\<lambda>j. eigen_layer j (fst (ls ! j)) (snd (ls ! j))) [i + 1..<length ls])))"
      using True by (intro "1.IH"[of "ls ! i" "fst (ls ! i)" "snd (ls ! i)"]) (simp_all add: at_def)
    finally show ?thesis using True by (simp add: upt_conv_Cons put_put)
  next
    case False
    then show ?thesis by (subst eigen_loop.simps) simp
  qed
qed

lemma py_init_loop_closed:
  "py_init_loop isize ls i out =
     Some (out @ concat (map (\<lambda>j. py_init_layer j (fst (ls ! j))
                                  (if j = 0 then isize else fst (ls ! (j - 1)))) [i..<length ls]))"
proof (induction isize ls i out rule: py_init_loop.induct)
  case (1 isize ls i out)
  let ?cols = "if i = 0 then isize else fst (ls ! (i - 1))"
  show ?case
  proof (cases "i < length ls")
    case True
    then have "py_init_loop isize ls i out =
                 py_init_loop isize ls (i + 1) (out @ py_init_layer i (fst (ls ! i)) ?cols)"
      by (subst py_init_loop.simps) (auto simp: at_def split_def)
    also have "\<dots> = Some ((out @ py_init_layer i (fst (ls ! i)) ?cols) @
                concat (map (\<lambda>j. py_init_layer j (fst (ls ! j))
                                  (if j = 0 then isize else fst (ls ! (j - 1)))) [i + 1..<length ls]))"
      using True
      by (intro "1.IH"[of "Some (ls ! i)" "Some ?cols" "ls ! i" "fst (ls ! i)" "snd (ls ! i)" ?cols])
         (auto simp: at_def)
    finally show ?thesis using True by (simp add: upt_conv_Cons)
  next
    case False
    then show ?thesis by (subst py_init_loop.simps) simp
  qed
qed

lemma py_forward_loop_closed:
  "py_forward_loop ls i out =
     Some (out @ concat (map (\<lambda>j. py_forward_layer j (snd (ls ! j))) [i..<length ls]))"
proof (induction ls i out rule: py_forward_loop.induct)
  case (1 ls i out)
  show ?case
  proof (cases "i < length ls")
    case True
    then have "py_forward_loop ls i out =
                 py_forward_loop ls (i + 1) (out @ py_forward_layer i (snd (ls ! i)))"
      by (subst py_forward_loop.simps) (simp add: at_def split_def)
    also have "\<dots> = Some ((out @ py_forward_layer i (snd (ls ! i))) @
                concat (map (\<lambda>j. py_forward_layer j (snd (ls ! j))) [i + 1..<length ls]))"
      using True by (intro "1.IH"[of "ls ! i" "fst (ls ! i)" "snd (ls ! i)"]) (simp_all add: at_def)
    finally show ?thesis using True by (simp add: upt_conv_Cons)
  next
    case False
    then show ?thesis by (subst py_forward_loop.simps) simp
  qed
qed

lemma pythonCode_total: "\<exists>code. pythonCode name isize ls = Some code"
  by (simp add: pythonCode_def py_init_loop_closed py_forward_loop_closed)


section \<open>Texts and their lines\<close>

lemma unlines_Nil [simp]: "unlines [] = []"
  by (simp add: unlines_def)

lemma unlines_Cons [simp]: "unlines (l # ls) = l @ CHR ''\<newline>'' # unlines ls"
  by (simp add: unlines_def)

lemma unlines_append [simp]: "unlines (xs @ ys) = unlines xs @ unlines ys"
  by (simp add: unlines_def)

lemma unlines_concat: "unlines (concat (map f js)) = concat (map (\<lambda>j. unlines (f j)) js)"
  by (induction js) simp_all

lemma getlines_from_no_newline:
  "CHR ''\<newline>'' \<notin> set xs \<Longrightarrow> getlines_from cur (xs @ ys) = getlines_from (cur @ xs) ys"
  by (induction xs arbitrary: cur) auto

lemma getlines_from_line:
  "CHR ''\<newline>'' \<notin> set l \<Longrightarrow>
     getlines_from cur (l @ CHR ''\<newline>'' # ys) = (cur @ l) # getlines_from [] ys"
  by (simp add: getlines_from_no_newline)

lemma getlines_unlines:
  "\<forall>l\<in>set ls. CHR ''\<newline>'' \<notin> set l \<Longrightarrow> getlines (unlines ls) = ls"
  unfolding getlines_def
  by (induction ls) (simp_all add: getlines_from_line)

lemma getlines_from_append:
  "getlines_from cur (xs @ CHR ''\<newline>'' # ys) =
     getlines_from cur (xs @ [CHR ''\<newline>'']) @ getlines_from [] ys"
  by (induction xs arbitrary: cur) auto

lemma getlines_append:
  assumes "xs \<noteq> []" and "last xs = CHR ''\<newline>''"
  shows "getlines (xs @ ys) = getlines xs @ getlines ys"
proof -
  from assms obtain zs where xs: "xs = zs @ [CHR ''\<newline>'']"
    by (metis append_butlast_last_id)
  show ?thesis unfolding xs getlines_def using getlines_from_append[of "[]" zs ys] by simp
qed

section \<open>The generated texts, line by line\<close>

lemma py_init_layer_lines: "py_init_layer i units cols = unlines (py_init_lines i units cols)"
  by (simp add: py_init_layer_def py_init_lines_def)

lemma py_forward_layer_lines: "py_forward_layer i activation = unlines (py_forward_lines i activation)"
  by (simp add: py_forward_layer_def py_forward_lines_def)

lemma eigen_layer_lines: "eigen_layer i units activation = unlines (eigen_layer_lines i units activation)"
  by (simp add: eigen_layer_def eigen_layer_lines_def)

lemma pythonCode_text: "pythonCode name isize ls = Some (py_head name @ unlines (py_body isize ls))"
  by (simp add: pythonCode_def py_init_loop_closed py_forward_loop_closed py_head_def py_body_def
      unlines_concat py_init_layer_lines py_forward_layer_lines)

lemma generateModelClass_files:
  "generateModelClass creatable name isize ls =
     Some (if creatable (name @ ''.cpp'')
           then [(name @ ''.cpp'', eigen_head name @ unlines (eigen_body ls))] else [])"
  by (simp add: generateModelClass_def eigen_loop_closed put_put put_def open_ofstream_def
      close_ofstream_def eigen_head_def eigen_body_def unlines_concat eigen_layer_lines)

lemma main_generates:
  assumes "length argv = 2" and "fs (argv ! 1) = Some doc" and "valid (parse uninit doc)"
  shows "main uninit fs creatable argv =
           \<lparr>status = Exit 0,
            stdout = ''Model class generated successfully: '' @ modelName (parse uninit doc)
                     @ ''.cpp\<newline>'',
            stderr = [],
            files = (if creatable (modelName (parse uninit doc) @ ''.cpp'')
                     then [(modelName (parse uninit doc) @ ''.cpp'',
                            eigen_head (modelName (parse uninit doc))
                            @ unlines (eigen_body (layers (parse uninit doc))))]
                     else [])\<rparr>"
  using assms by (simp add: main_def Let_def generateModelClass_files)

lemma main_rejects:
  assumes "length argv = 2" and "fs (argv ! 1) = Some doc" and "\<not> valid (parse uninit doc)"
  shows "main uninit fs creatable argv =
           \<lparr>status = Exit 1, stdout = [], stderr = ''Error: Invalid input format.\<newline>'',
            files = []\<rparr>"
  using assms by (simp add: main_def Let_def)

lemma main_cannot_open:
  assumes "length argv = 2" and "fs (argv ! 1) = None"
  shows "status (main uninit fs creatable argv) = Exit 1"
    and "files (main uninit fs creatable argv) = []"
  using assms by (simp_all add: main_def)

lemma main_selftest:
  assumes "length argv \<noteq> 2"
  shows "status (main uninit fs creatable argv) = Abort"
    and "files (main uninit fs creatable argv) = []"
  using assms testParser_fails[of uninit] by (simp_all add: main_def)

lemma py_init_lines_no_newline: "\<forall>l\<in>set (py_init_lines i u c). CHR ''\<newline>'' \<notin> set l"
  by (simp add: py_init_lines_def)

lemma py_forward_lines_no_newline: "\<forall>l\<in>set (py_forward_lines i a). CHR ''\<newline>'' \<notin> set l"
  by (simp add: py_forward_lines_def)

lemma eigen_layer_lines_no_newline: "\<forall>l\<in>set (eigen_layer_lines i u a). CHR ''\<newline>'' \<notin> set l"
  by (simp add: eigen_layer_lines_def)

lemma py_body_no_newline: "\<forall>l\<in>set (py_body isize ls). CHR ''\<newline>'' \<notin> set l"
  using py_init_lines_no_newline py_forward_lines_no_newline
  by (auto simp: py_body_def)

lemma eigen_body_no_newline: "\<forall>l\<in>set (eigen_body ls). CHR ''\<newline>'' \<notin> set l"
  using eigen_layer_lines_no_newline
  by (auto simp: eigen_body_def)

lemma getlines_python:
  "getlines (py_head name @ unlines (py_body isize ls)) = getlines (py_head name) @ py_body isize ls"
proof -
  have "py_head name \<noteq> []" "last (py_head name) = CHR ''\<newline>''"
    by (simp_all add: py_head_def)
  then show ?thesis
    by (simp add: getlines_append getlines_unlines py_body_no_newline)
qed

lemma getlines_eigen:
  "getlines (eigen_head name @ unlines (eigen_body ls)) = getlines (eigen_head name) @ eigen_body ls"
proof -
  have "eigen_head name \<noteq> []" "last (eigen_head name) = CHR ''\<newline>''"
    by (simp_all add: eigen_head_def)
  then show ?thesis
    by (simp add: getlines_append getlines_unlines eigen_body_no_newline)
qed

lemma getlines_py_head:
  "CHR ''\<newline>'' \<notin> set name \<Longrightarrow>
     getlines (py_head name) =
       [''import numpy as np'', '''', ''class '' @ name @ '':'', ''    def __init__(self):'']"
  by (simp add: getlines_def py_head_def getlines_from_no_newline)

lemma getlines_eigen_head:
  "CHR ''\<newline>'' \<notin> set name \<Longrightarrow>
     getlines (eigen_head name) =
       [''#include <Eigen/Dense>'', '''', ''class '' @ name @ '' {'', ''public:'',
        ''    '' @ name @ ''() {}'', '''',
        ''    Eigen::MatrixXd forward(const Eigen::MatrixXd& input) {'',
        ''        Eigen::MatrixXd x = input;'']"
  by (simp add: getlines_def eigen_head_def getlines_from_no_newline)

section \<open>The line after a line\<close>






section \<open>The forward pass of the numpy text\<close>






section \<open>The forward pass of the Eigen text\<close>





lemma show_nat_1: "show_nat (Suc 0) = ''1''"
proof -
  have "digit_char (Suc 0) = CHR ''1''"
    by (rule of_char_eq_iff[THEN iffD1, where ?'a1 = nat]) (simp add: digit_char_def)
  then show ?thesis by (simp add: show_nat.simps)
qed

lemma show_int_4: "show_int 4 = ''4''"
proof -
  have "digit_char 4 = CHR ''4''"
    by (rule of_char_eq_iff[THEN iffD1, where ?'a1 = nat]) (simp add: digit_char_def)
  then show ?thesis by (simp add: show_int_def show_nat.simps)
qed

lemma show_int_8: "show_int 8 = ''8''"
proof -
  have "digit_char 8 = CHR ''8''"
    by (rule of_char_eq_iff[THEN iffD1, where ?'a1 = nat]) (simp add: digit_char_def)
  then show ?thesis by (simp add: show_int_def show_nat.simps)
qed

lemma blank_prefix_token:
  "\<forall>c\<in>set name. \<not> isspace c \<Longrightarrow> \<not> prefix (CHR '' '' # xs) (name @ CHR ''('' # ys)"
  by (cases name) (auto simp: isspace_def)

lemma token_no_newline: "\<forall>c\<in>set name. \<not> isspace c \<Longrightarrow> CHR ''\<newline>'' \<notin> set name"
  by (auto simp: isspace_def)

lemma filter_concat_map: "filter P (concat (map f js)) = concat (map (\<lambda>j. filter P (f j)) js)"
  by (induction js) simp_all

lemma py_weight_lines:
  assumes "CHR ''\<newline>'' \<notin> set name"
  shows "filter (prefix ''        self.W'') (getlines (py_head name) @ py_body isize ls) =
           map (\<lambda>i. ''        self.W'' @ show_nat (i + 1) @ '' = np.random.rand(''
                      @ show_int (fst (ls ! i)) @ '', ''
                      @ show_int (if i = 0 then isize else fst (ls ! (i - 1))) @ '')'')
               [0..<length ls]"
  using assms
  by (simp add: getlines_py_head py_body_def filter_concat_map py_init_lines_def py_forward_lines_def)

lemma py_bias_lines:
  assumes "CHR ''\<newline>'' \<notin> set name"
  shows "filter (prefix ''        self.b'') (getlines (py_head name) @ py_body isize ls) =
           map (\<lambda>i. ''        self.b'' @ show_nat (i + 1) @ '' = np.random.rand(''
                      @ show_int (fst (ls ! i)) @ '')'')
               [0..<length ls]"
  using assms
  by (simp add: getlines_py_head py_body_def filter_concat_map py_init_lines_def py_forward_lines_def)

lemma eigen_weight_lines:
  assumes "\<forall>c\<in>set name. \<not> isspace c"
  shows "filter (prefix ''        Eigen::MatrixXd W'') (getlines (eigen_head name) @ eigen_body ls) =
           map (\<lambda>i. ''        Eigen::MatrixXd W'' @ show_nat (i + 1) @ '' = Eigen::MatrixXd::Random(''
                      @ show_int (fst (ls ! i)) @ '', x.cols());'')
               [0..<length ls]"
  using assms token_no_newline[OF assms] blank_prefix_token[OF assms]
  by (simp add: getlines_eigen_head eigen_body_def filter_concat_map eigen_layer_lines_def)

lemma eigen_bias_lines:
  assumes "\<forall>c\<in>set name. \<not> isspace c"
  shows "filter (prefix ''        Eigen::VectorXd b'') (getlines (eigen_head name) @ eigen_body ls) =
           map (\<lambda>i. ''        Eigen::VectorXd b'' @ show_nat (i + 1) @ '' = Eigen::VectorXd::Random(''
                      @ show_int (fst (ls ! i)) @ '');'')
               [0..<length ls]"
  using assms token_no_newline[OF assms] blank_prefix_token[OF assms]
  by (simp add: getlines_eigen_head eigen_body_def filter_concat_map eigen_layer_lines_def)


lemma show_int_2: "show_int 2 = ''2''"
proof -
  have "digit_char 2 = CHR ''2''"
    by (rule of_char_eq_iff[THEN iffD1, where ?'a1 = nat]) (simp add: digit_char_def)
  then show ?thesis by (simp add: show_int_def show_nat.simps)
qed

section \<open>Facts about whole runs\<close>

text \<open>
  The integer a token is read as, by cases on its digits; the pair a
  \<^verbatim>\<open>layer\<close> line appends; the weight and bias lines of both texts; and the
  status and the files of a run of \<^verbatim>\<open>main\<close>, also when the output file
  cannot be created.
\<close>

lemma int_of_token_cases:
  assumes "w \<noteq> []" and "\<not> isspace (hd w)"
  shows "int_of_token w =
           (if number_digits w = [] then 0
            else if INT_MAX < signed_value w then INT_MAX
            else if signed_value w < INT_MIN then INT_MIN
            else signed_value w)"
    and "int_fails w \<longleftrightarrow>
           number_digits w = [] \<or> INT_MAX < signed_value w \<or> signed_value w < INT_MIN"
  using assms dropWhile_space_token[of w]
  by (simp_all add: int_of_token_def int_fails_def get_int_def Let_def)

lemma layer_units:
  assumes "prefix ''layer'' line"
  shows "\<exists>act. parse_line u st line =
             st\<lparr>layers := layers st @
                [(if length (tokens line) < 3 then u
                  else if number_digits (tokens line ! 2) = [] then 0
                  else if INT_MAX < signed_value (tokens line ! 2) then INT_MAX
                  else if signed_value (tokens line ! 2) < INT_MIN then INT_MIN
                  else signed_value (tokens line ! 2), act)]\<rparr>
           \<and> (length (tokens line) < 3 \<or> number_digits (tokens line ! 2) = []
                \<or> INT_MAX < signed_value (tokens line ! 2)
                \<or> signed_value (tokens line ! 2) < INT_MIN \<longrightarrow> act = [])"
proof -
  from parse_line_layer[OF assms, of u st] obtain act where
    pl: "parse_line u st line = st\<lparr>layers := layers st @
           [(if 3 \<le> length (tokens line) then int_of_token (tokens line ! 2) else u, act)]\<rparr>"
    and act: "length (tokens line) < 3 \<or> int_fails (tokens line ! 2) \<longrightarrow> act = []" by blast
  show ?thesis
  proof (cases "length (tokens line) < 3")
    case True
    then show ?thesis using pl act by auto
  next
    case False
    then have "tokens line ! 2 \<noteq> []" "\<not> isspace (hd (tokens line ! 2))"
      using tokens_nth_chars[of 2 line] by simp_all
    from int_of_token_cases[OF this] False pl act show ?thesis by auto
  qed
qed

lemmas number_eval = number_digits_def unsigned_part_def signed_value_def isdigit_def dec_val_def
  digit_val_def INT_MAX_def INT_MIN_def

lemma generated_weight_and_bias_lines:
  assumes "\<forall>c\<in>set name. \<not> isspace c"
  shows "\<exists>content code.
           generateModelClass creatable name isize ls =
             Some (if creatable (name @ ''.cpp'') then [(name @ ''.cpp'', content)] else [])
           \<and> pythonCode name isize ls = Some code
           \<and> filter (prefix ''        self.W'') (getlines code) =
               map (\<lambda>i. ''        self.W'' @ show_nat (i + 1) @ '' = np.random.rand(''
                          @ show_int (fst (ls ! i)) @ '', ''
                          @ show_int (if i = 0 then isize else fst (ls ! (i - 1))) @ '')'')
                   [0..<length ls]
           \<and> filter (prefix ''        self.b'') (getlines code) =
               map (\<lambda>i. ''        self.b'' @ show_nat (i + 1) @ '' = np.random.rand(''
                          @ show_int (fst (ls ! i)) @ '')'')
                   [0..<length ls]
           \<and> filter (prefix ''        Eigen::MatrixXd W'') (getlines content) =
               map (\<lambda>i. ''        Eigen::MatrixXd W'' @ show_nat (i + 1)
                          @ '' = Eigen::MatrixXd::Random('' @ show_int (fst (ls ! i))
                          @ '', x.cols());'')
                   [0..<length ls]
           \<and> filter (prefix ''        Eigen::VectorXd b'') (getlines content) =
               map (\<lambda>i. ''        Eigen::VectorXd b'' @ show_nat (i + 1)
                          @ '' = Eigen::VectorXd::Random('' @ show_int (fst (ls ! i)) @ '');'')
                   [0..<length ls]
           \<and> generateModelClass creatable name isize' ls = generateModelClass creatable name isize ls"
proof -
  let ?content = "eigen_head name @ unlines (eigen_body ls)"
  let ?code = "py_head name @ unlines (py_body isize ls)"
  have nl: "CHR ''\<newline>'' \<notin> set name" using assms by (rule token_no_newline)
  have 1: "generateModelClass creatable name isize ls =
             Some (if creatable (name @ ''.cpp'') then [(name @ ''.cpp'', ?content)] else [])"
    by (rule generateModelClass_files)
  have 2: "pythonCode name isize ls = Some ?code"
    by (rule pythonCode_text)
  have 3: "filter (prefix ''        self.W'') (getlines ?code) =
               map (\<lambda>i. ''        self.W'' @ show_nat (i + 1) @ '' = np.random.rand(''
                          @ show_int (fst (ls ! i)) @ '', ''
                          @ show_int (if i = 0 then isize else fst (ls ! (i - 1))) @ '')'')
                   [0..<length ls]"
    unfolding getlines_python by (rule py_weight_lines[OF nl])
  have 4: "filter (prefix ''        self.b'') (getlines ?code) =
               map (\<lambda>i. ''        self.b'' @ show_nat (i + 1) @ '' = np.random.rand(''
                          @ show_int (fst (ls ! i)) @ '')'')
                   [0..<length ls]"
    unfolding getlines_python by (rule py_bias_lines[OF nl])
  have 5: "filter (prefix ''        Eigen::MatrixXd W'') (getlines ?content) =
               map (\<lambda>i. ''        Eigen::MatrixXd W'' @ show_nat (i + 1)
                          @ '' = Eigen::MatrixXd::Random('' @ show_int (fst (ls ! i))
                          @ '', x.cols());'')
                   [0..<length ls]"
    unfolding getlines_eigen by (rule eigen_weight_lines[OF assms])
  have 6: "filter (prefix ''        Eigen::VectorXd b'') (getlines ?content) =
               map (\<lambda>i. ''        Eigen::VectorXd b'' @ show_nat (i + 1)
                          @ '' = Eigen::VectorXd::Random('' @ show_int (fst (ls ! i)) @ '');'')
                   [0..<length ls]"
    unfolding getlines_eigen by (rule eigen_bias_lines[OF assms])
  have 7: "generateModelClass creatable name isize' ls = generateModelClass creatable name isize ls"
    by (simp only: generateModelClass_files)
  show ?thesis
    by (rule exI[of _ "?content"], rule exI[of _ "?code"]) (intro conjI 1 2 3 4 5 6 7)
qed

lemma exit_status_and_files:
  "(status (main uninit fs creatable argv) = Exit 0 \<longleftrightarrow>
      length argv = 2 \<and> (\<exists>doc. fs (argv ! 1) = Some doc \<and> valid (parse uninit doc)))
   \<and> (length argv = 2 \<and> fs (argv ! 1) = None \<longrightarrow> status (main uninit fs creatable argv) = Exit 1)
   \<and> (length argv = 2 \<and> (\<exists>doc. fs (argv ! 1) = Some doc \<and> \<not> valid (parse uninit doc)) \<longrightarrow>
        status (main uninit fs creatable argv) = Exit 1)
   \<and> (status (main uninit fs creatable argv) \<noteq> Exit 0 \<longrightarrow> files (main uninit fs creatable argv) = [])
   \<and> (length argv = 2 \<and> (\<exists>doc. fs (argv ! 1) = Some doc \<and> valid (parse uninit doc)
         \<and> \<not> creatable (modelName (parse uninit doc) @ ''.cpp'')) \<longrightarrow>
        status (main uninit fs creatable argv) = Exit 0 \<and> files (main uninit fs creatable argv) = [])"
proof (cases "length argv = 2")
  case False
  then show ?thesis using main_selftest[of argv uninit fs creatable] by simp
next
  case True
  show ?thesis
  proof (cases "fs (argv ! 1)")
    case None
    then show ?thesis using True main_cannot_open[of argv fs uninit creatable] by simp
  next
    case (Some doc)
    show ?thesis
    proof (cases "valid (parse uninit doc)")
      case v: True
      then show ?thesis using True Some main_generates[of argv fs doc uninit creatable] by simp
    next
      case v: False
      then show ?thesis using True Some main_rejects[of argv fs doc uninit creatable] by simp
    qed
  qed
qed

lemma negative_units_accepted:
  \<open>valid (parse all_zero ''model M {\<newline>input: size = 4\<newline>layer: units= -8, activation= "relu"\<newline>}'')
   \<and> layers (parse all_zero ''model M {\<newline>input: size = 4\<newline>layer: units= -8, activation= "relu"\<newline>}'')
       = [(- 8, ''"relu"'')]\<close>
  by (simp add: valid_def parse_def getlines_def initial_spec_def parse_line_def stream_defs)

section \<open>The claims\<close>

subsection \<open>C1\<close>

text \<open>
  Claim C1 at its document. The code leaves the input size at 0 and appends two pairs
  \<open>(0, [])\<close>: in \<^verbatim>\<open>input: size=4\<close> the third \<^verbatim>\<open>iss >> key\<close> finds no
  token, and in the \<^verbatim>\<open>layer\<close> lines the third token is not a number. The run ends
  with status 1 and writes nothing, whether or not the output file could be created.
\<close>

theorem scenario1_parse:
  \<open>parse uninit ''model TestModel {\<newline>input: size=4\<newline>layer: units=8, activation="relu"\<newline>layer: units=2, activation="sigmoid"\<newline>}''
     = \<lparr>modelName = ''TestModel'', inputSize = 0, layers = [(0, []), (0, [])]\<rparr>
   \<and> main uninit (\<lambda>p. Some ''model TestModel {\<newline>input: size=4\<newline>layer: units=8, activation="relu"\<newline>layer: units=2, activation="sigmoid"\<newline>}'') creatable [''transpiler'', ''scenario1.ail'']
     = \<lparr>status = Exit 1, stdout = [], stderr = ''Error: Invalid input format.\<newline>'', files = []\<rparr>\<close>
  by (simp add: main_def valid_def parse_def getlines_def initial_spec_def parse_line_def
      stream_defs)

subsection \<open>C2\<close>

text \<open>
  Claim C2 at a model named \<^verbatim>\<open>M\<close> with input size 4 and one layer of 8 units,
  written where the file can be created. The Eigen text declares the weight of the layer
  as \<^verbatim>\<open>Random(8, x.cols())\<close>: the shape (8, 4) is nowhere in it, and input size 5
  gives the same text, as \<^verbatim>\<open>generateModelClass\<close> never reads its parameter
  \<^verbatim>\<open>inputSize\<close>. The numpy emitter of the same source writes the shape
  \<^verbatim>\<open>(8, 4)\<close> for the same model.
\<close>

theorem eigen_text_ignores_input_size:
  \<open>generateModelClass every_path ''M'' 4 [(8, ''"relu"'')] =
     Some [(''M.cpp'',
       ''#include <Eigen/Dense>\<newline>\<newline>class M {\<newline>public:\<newline>    M() {}\<newline>\<newline>''
       @ ''    Eigen::MatrixXd forward(const Eigen::MatrixXd& input) {\<newline>''
       @ ''        Eigen::MatrixXd x = input;\<newline>''
       @ ''        // Layer 1\<newline>''
       @ ''        Eigen::MatrixXd W1 = Eigen::MatrixXd::Random(8, x.cols());\<newline>''
       @ ''        Eigen::VectorXd b1 = Eigen::VectorXd::Random(8);\<newline>''
       @ ''        x = (W1 * x).colwise() + b1;\<newline>''
       @ ''        x = x.cwiseMax(0.0);\<newline>\<newline>''
       @ ''        return x;\<newline>    }\<newline>};\<newline>'')]
   \<and> generateModelClass every_path ''M'' 5 [(8, ''"relu"'')]
       = generateModelClass every_path ''M'' 4 [(8, ''"relu"'')]
   \<and> pythonCode ''M'' 4 [(8, ''"relu"'')] =
     Some (''import numpy as np\<newline>\<newline>class M:\<newline>    def __init__(self):\<newline>''
       @ ''        self.W1 = np.random.rand(8, 4)\<newline>''
       @ ''        self.b1 = np.random.rand(8)\<newline>\<newline>''
       @ ''    def forward(self, x):\<newline>''
       @ ''        x = np.array(x)\<newline>''
       @ ''        x = np.dot(self.W1, x) + self.b1\<newline>''
       @ ''        x = np.maximum(0, x)\<newline>''
       @ ''        return x\<newline>'')\<close>
  by (simp add: generateModelClass_files every_path_def eigen_head_def eigen_body_def
      eigen_layer_lines_def pythonCode_text py_head_def py_body_def py_init_lines_def
      py_forward_lines_def unlines_def show_nat_1 show_int_8 show_int_4)

subsection \<open>C3\<close>



subsection \<open>C4\<close>




subsection \<open>C5\<close>

text \<open>
  Claim C5 at a document and its indented copy. The first parses to a model with one layer;
  with two blanks before each line no line is recognised, as no line that starts with a
  blank ever is. The self-test of the source feeds the parser indented lines, so its
  assertions fail.
\<close>

theorem indentation_changes_parse:
  \<open>parse uninit ''model M {\<newline>input: size = 4\<newline>layer: units= 8, activation= "relu"\<newline>}''
     = \<lparr>modelName = ''M'', inputSize = 4, layers = [(8, ''"relu"'')]\<rparr>
   \<and> parse uninit ''  model M {\<newline>  input: size = 4\<newline>  layer: units= 8, activation= "relu"\<newline>}''
     = \<lparr>modelName = [], inputSize = 0, layers = []\<rparr>
   \<and> parse_line u st (CHR '' '' # line) = st
   \<and> \<not> testParser uninit\<close>
  using testParser_fails[of uninit]
  by (simp add: parse_def getlines_def initial_spec_def parse_line_def stream_defs)

subsection \<open>C6\<close>

text \<open>
  Claim C6 at a run that cannot write its output. The document names the model
  \<^verbatim>\<open>nodir/M\<close> and is otherwise well formed; the directory
  \<^verbatim>\<open>nodir\<close> does not exist, so \<^verbatim>\<open>nodir/M.cpp\<close> cannot be created.
  \<^verbatim>\<open>generateModelClass\<close> never tests its output stream, and
  \<^verbatim>\<open>main\<close> prints the success message and returns 0 with no file written.
  The input stream, by contrast, is tested: a file that cannot be opened gives status 1.
\<close>

theorem unwritable_output_reported_as_success:
  \<open>main uninit
      (single_file ''model nodir/M {\<newline>input: size = 4\<newline>layer: units= 8, activation= "relu"\<newline>}'')
      nodir_missing [''transpiler'', ''m.ail'']
     = \<lparr>status = Exit 0,
        stdout = ''Model class generated successfully: nodir/M.cpp\<newline>'',
        stderr = [], files = []\<rparr>
   \<and> main uninit (\<lambda>p. None) nodir_missing [''transpiler'', ''m.ail'']
     = \<lparr>status = Exit 1, stdout = [],
        stderr = ''Error: Could not open file m.ail\<newline>'', files = []\<rparr>\<close>
  by (simp add: main_def single_file_def nodir_missing_def valid_def generateModelClass_files
      parse_def getlines_def initial_spec_def parse_line_def stream_defs)

subsection \<open>C7\<close>

text \<open>
  Claim C7, as the code has it. A specification that passes the test of \<^verbatim>\<open>main\<close>
  has a non-empty name, which is one token (no white space in it), an input size from 1 to
  \<^verbatim>\<open>INT_MAX\<close>, and at least one layer. Nothing is promised about the unit counts.
\<close>

theorem accepted_spec_invariants:
  assumes "valid (parse uninit doc)"
  shows "modelName (parse uninit doc) \<noteq> []
         \<and> (\<forall>c\<in>set (modelName (parse uninit doc)). \<not> isspace c)
         \<and> 0 < inputSize (parse uninit doc) \<and> inputSize (parse uninit doc) \<le> INT_MAX
         \<and> layers (parse uninit doc) \<noteq> []"
  using assms modelName_token[of uninit doc] inputSize_range[of uninit doc]
  by (simp add: valid_def)

theorem accepted_spec_invariants_witness:
  \<open>valid (parse all_zero ''model M {\<newline>input: size = 4\<newline>layer: units= 8, activation= "relu"\<newline>}'')
   \<and> inputSize (parse all_zero ''model M {\<newline>input: size = 4\<newline>layer: units= 8, activation= "relu"\<newline>}'') \<le> INT_MAX\<close>
proof -
  have v: \<open>valid (parse all_zero ''model M {\<newline>input: size = 4\<newline>layer: units= 8, activation= "relu"\<newline>}'')\<close>
    by (simp add: valid_def parse_def getlines_def initial_spec_def parse_line_def stream_defs)
  from accepted_spec_invariants[OF v] v show ?thesis by blast
qed

text \<open>
  Against C7 as stated: this document passes the test and its only layer has 0 units.
\<close>

theorem accepted_spec_zero_units:
  \<open>valid (parse all_zero ''model M {\<newline>input: size = 4\<newline>layer: units=8, activation="relu"\<newline>}'')
   \<and> layers (parse all_zero ''model M {\<newline>input: size = 4\<newline>layer: units=8, activation="relu"\<newline>}'') = [(0, [])]\<close>
  by (simp add: valid_def parse_def getlines_def initial_spec_def parse_line_def stream_defs)

subsection \<open>C8\<close>


subsection \<open>C9\<close>

text \<open>
  Claim C9, as the code has it. Of several lines that start with \<^verbatim>\<open>model\<close> the
  one that counts is the last with at least two tokens, and the name is its second token;
  of several lines that start with \<^verbatim>\<open>input\<close> the one that counts is the last
  with at least four tokens, and the size is what the integer extraction makes of its fourth
  token. A later line with fewer tokens leaves the earlier value in place. With no such line
  the name stays empty and the size 0. No error is raised on the way.
\<close>

theorem last_declaration_wins:
  "modelName (parse uninit doc) =
     (let ms = filter (\<lambda>l. prefix ''model'' l \<and> 2 \<le> length (tokens l)) (getlines doc)
      in if ms = [] then [] else tokens (last ms) ! 1)
   \<and> inputSize (parse uninit doc) =
     (let ns = filter (\<lambda>l. prefix ''input'' l \<and> 4 \<le> length (tokens l)) (getlines doc)
      in if ns = [] then 0 else int_of_token (tokens (last ns) ! 3))"
  using modelName_parse[of uninit doc] inputSize_parse[of uninit doc] by blast

text \<open>
  Against C9 as stated: the last \<^verbatim>\<open>model\<close> line and the last
  \<^verbatim>\<open>input\<close> line of this document are recognised, but the name and the size
  come from the earlier lines.
\<close>

theorem later_declaration_ignored:
  \<open>parse all_zero ''model A {\<newline>input: size = 4\<newline>model\<newline>input: size=7\<newline>layer: units= 3, activation= "relu"\<newline>''
     = \<lparr>modelName = ''A'', inputSize = 4, layers = [(3, ''"relu"'')]\<rparr>\<close>
  by (simp add: parse_def getlines_def initial_spec_def parse_line_def stream_defs)

subsection \<open>C10\<close>

text \<open>
  Claim C10, as the code has it. A line that starts with \<^verbatim>\<open>layer\<close> appends
  exactly one pair and changes nothing else. With at least three tokens the unit count is
  decided by the third: if it has no digits where a number is expected, the pair is
  \<open>(0, [])\<close>; if its number is above \<^verbatim>\<open>INT_MAX\<close>, the pair is
  \<open>(INT_MAX, [])\<close>; if its number is below \<^verbatim>\<open>INT_MIN\<close>, the pair is
  \<open>(INT_MIN, [])\<close>; and if its number is in range, the unit count is that number. With
  fewer than three tokens the activation is empty and the unit count is what the
  uninitialised variable held. A document with a line whose extraction fails can pass the
  test of \<^verbatim>\<open>main\<close>.
\<close>

theorem layer_line_appends_one_layer:
  assumes "prefix ''layer'' line"
  shows \<open>(\<exists>units act.
           parse_line u st line = st\<lparr>layers := layers st @ [(units, act)]\<rparr>
           \<and> (3 \<le> length (tokens line) \<and> number_digits (tokens line ! 2) = [] \<longrightarrow>
                units = 0 \<and> act = [])
           \<and> (3 \<le> length (tokens line) \<and> number_digits (tokens line ! 2) \<noteq> []
                \<and> INT_MAX < signed_value (tokens line ! 2) \<longrightarrow>
                units = INT_MAX \<and> act = [])
           \<and> (3 \<le> length (tokens line) \<and> number_digits (tokens line ! 2) \<noteq> []
                \<and> signed_value (tokens line ! 2) < INT_MIN \<longrightarrow>
                units = INT_MIN \<and> act = [])
           \<and> (3 \<le> length (tokens line) \<and> number_digits (tokens line ! 2) \<noteq> []
                \<and> INT_MIN \<le> signed_value (tokens line ! 2)
                \<and> signed_value (tokens line ! 2) \<le> INT_MAX \<longrightarrow>
                units = signed_value (tokens line ! 2))
           \<and> (length (tokens line) < 3 \<longrightarrow> units = u \<and> act = []))
         \<and> valid (parse uninit ''model M {\<newline>input: size = 4\<newline>layer: units=8, activation="relu"\<newline>}'')
         \<and> layers (parse uninit ''model M {\<newline>input: size = 4\<newline>layer: units=8, activation="relu"\<newline>}'')
             = [(0, [])]\<close>
proof -
  let ?units = "if length (tokens line) < 3 then u
                  else if number_digits (tokens line ! 2) = [] then 0
                  else if INT_MAX < signed_value (tokens line ! 2) then INT_MAX
                  else if signed_value (tokens line ! 2) < INT_MIN then INT_MIN
                  else signed_value (tokens line ! 2)"
  from layer_units[OF assms, of u st] obtain act where
    pl: "parse_line u st line = st\<lparr>layers := layers st @ [(?units, act)]\<rparr>"
    and act: "length (tokens line) < 3 \<or> number_digits (tokens line ! 2) = []
                \<or> INT_MAX < signed_value (tokens line ! 2)
                \<or> signed_value (tokens line ! 2) < INT_MIN \<longrightarrow> act = []" by blast
  have range: "INT_MIN \<le> INT_MAX" by (simp add: INT_MIN_def INT_MAX_def)
  have one: "parse_line u st line = st\<lparr>layers := layers st @ [(?units, act)]\<rparr>
           \<and> (3 \<le> length (tokens line) \<and> number_digits (tokens line ! 2) = [] \<longrightarrow>
                ?units = 0 \<and> act = [])
           \<and> (3 \<le> length (tokens line) \<and> number_digits (tokens line ! 2) \<noteq> []
                \<and> INT_MAX < signed_value (tokens line ! 2) \<longrightarrow>
                ?units = INT_MAX \<and> act = [])
           \<and> (3 \<le> length (tokens line) \<and> number_digits (tokens line ! 2) \<noteq> []
                \<and> signed_value (tokens line ! 2) < INT_MIN \<longrightarrow>
                ?units = INT_MIN \<and> act = [])
           \<and> (3 \<le> length (tokens line) \<and> number_digits (tokens line ! 2) \<noteq> []
                \<and> INT_MIN \<le> signed_value (tokens line ! 2)
                \<and> signed_value (tokens line ! 2) \<le> INT_MAX \<longrightarrow>
                ?units = signed_value (tokens line ! 2))
           \<and> (length (tokens line) < 3 \<longrightarrow> ?units = u \<and> act = [])"
    using pl act range by auto
  have accepted:
    \<open>valid (parse uninit ''model M {\<newline>input: size = 4\<newline>layer: units=8, activation="relu"\<newline>}'')
     \<and> layers (parse uninit ''model M {\<newline>input: size = 4\<newline>layer: units=8, activation="relu"\<newline>}'')
         = [(0, [])]\<close>
    by (simp add: valid_def parse_def getlines_def initial_spec_def parse_line_def stream_defs)
  from one have "\<exists>units act.
           parse_line u st line = st\<lparr>layers := layers st @ [(units, act)]\<rparr>
           \<and> (3 \<le> length (tokens line) \<and> number_digits (tokens line ! 2) = [] \<longrightarrow>
                units = 0 \<and> act = [])
           \<and> (3 \<le> length (tokens line) \<and> number_digits (tokens line ! 2) \<noteq> []
                \<and> INT_MAX < signed_value (tokens line ! 2) \<longrightarrow>
                units = INT_MAX \<and> act = [])
           \<and> (3 \<le> length (tokens line) \<and> number_digits (tokens line ! 2) \<noteq> []
                \<and> signed_value (tokens line ! 2) < INT_MIN \<longrightarrow>
                units = INT_MIN \<and> act = [])
           \<and> (3 \<le> length (tokens line) \<and> number_digits (tokens line ! 2) \<noteq> []
                \<and> INT_MIN \<le> signed_value (tokens line ! 2)
                \<and> signed_value (tokens line ! 2) \<le> INT_MAX \<longrightarrow>
                units = signed_value (tokens line ! 2))
           \<and> (length (tokens line) < 3 \<longrightarrow> units = u \<and> act = [])"
    by (intro exI)
  with accepted show ?thesis by (rule conjI[rotated])
qed

theorem layer_line_appends_one_layer_witness:
  \<open>parse_line 7 initial_spec ''layer: units=8, activation="relu"''
       = initial_spec\<lparr>layers := [(0, [])]\<rparr>
   \<and> parse_line 7 initial_spec ''layer: units= 99999999999 , activation= "relu"''
       = initial_spec\<lparr>layers := [(2147483647, [])]\<rparr>
   \<and> parse_line 7 initial_spec ''layer: units= -99999999999 , activation= "relu"''
       = initial_spec\<lparr>layers := [(- 2147483648, [])]\<rparr>
   \<and> (\<exists>act. parse_line 7 initial_spec ''layer: units= 8, activation= "relu"''
       = initial_spec\<lparr>layers := [(8, act)]\<rparr>)
   \<and> parse_line 7 initial_spec ''layer: units=8'' = initial_spec\<lparr>layers := [(7, [])]\<rparr>\<close>
proof -
  have t1: \<open>tokens ''layer: units=8, activation="relu"''
              = [''layer:'', ''units=8,'', ''activation="relu"'']\<close>
    by (simp add: tokens_eval)
  have d1: \<open>number_digits ''activation="relu"'' = []\<close>
    by (simp add: number_eval)
  have 1: \<open>parse_line 7 initial_spec ''layer: units=8, activation="relu"''
       = initial_spec\<lparr>layers := [(0, [])]\<rparr>\<close>
    using layer_line_appends_one_layer[of \<open>''layer: units=8, activation="relu"''\<close> 7 initial_spec]
      t1 d1
    by (auto simp: initial_spec_def)
  have t2: \<open>tokens ''layer: units= 99999999999 , activation= "relu"''
              = [''layer:'', ''units='', ''99999999999'', '','', ''activation='', ''"relu"'']\<close>
    by (simp add: tokens_eval)
  have d2: "number_digits ''99999999999'' \<noteq> []" "INT_MAX < signed_value ''99999999999''"
    by (simp_all add: number_eval)
  have 2: \<open>parse_line 7 initial_spec ''layer: units= 99999999999 , activation= "relu"''
       = initial_spec\<lparr>layers := [(2147483647, [])]\<rparr>\<close>
    using layer_line_appends_one_layer[of \<open>''layer: units= 99999999999 , activation= "relu"''\<close>
        7 initial_spec] t2 d2
    by (auto simp: initial_spec_def INT_MAX_def)
  have t3: \<open>tokens ''layer: units= -99999999999 , activation= "relu"''
              = [''layer:'', ''units='', ''-99999999999'', '','', ''activation='', ''"relu"'']\<close>
    by (simp add: tokens_eval)
  have d3: "number_digits ''-99999999999'' \<noteq> []" "signed_value ''-99999999999'' < INT_MIN"
    by (simp_all add: number_eval)
  have 3: \<open>parse_line 7 initial_spec ''layer: units= -99999999999 , activation= "relu"''
       = initial_spec\<lparr>layers := [(- 2147483648, [])]\<rparr>\<close>
    using layer_line_appends_one_layer[of \<open>''layer: units= -99999999999 , activation= "relu"''\<close>
        7 initial_spec] t3 d3
    by (auto simp: initial_spec_def INT_MIN_def)
  have t4: \<open>tokens ''layer: units= 8, activation= "relu"''
              = [''layer:'', ''units='', ''8,'', ''activation='', ''"relu"'']\<close>
    by (simp add: tokens_eval)
  have d4: "number_digits ''8,'' \<noteq> []" "signed_value ''8,'' = 8"
    "INT_MIN \<le> signed_value ''8,''" "signed_value ''8,'' \<le> INT_MAX"
    by (simp_all add: number_eval)
  have 4: \<open>\<exists>act. parse_line 7 initial_spec ''layer: units= 8, activation= "relu"''
       = initial_spec\<lparr>layers := [(8, act)]\<rparr>\<close>
    using layer_line_appends_one_layer[of \<open>''layer: units= 8, activation= "relu"''\<close>
        7 initial_spec] t4 d4
    by (auto simp: initial_spec_def)
  have t5: "tokens ''layer: units=8'' = [''layer:'', ''units=8'']"
    by (simp add: tokens_eval)
  have 5: "parse_line 7 initial_spec ''layer: units=8'' = initial_spec\<lparr>layers := [(7, [])]\<rparr>"
    using layer_line_appends_one_layer[of "''layer: units=8''" 7 initial_spec] t5
    by (auto simp: initial_spec_def)
  from 1 2 3 4 5 show ?thesis by (intro conjI)
qed

text \<open>
  Against C10 as stated: the extraction of the unit count fails on this line, and the pair
  appended has \<^verbatim>\<open>INT_MAX\<close> units, not 0.
\<close>

theorem overflowing_units_not_zero:
  \<open>prefix ''layer'' ''layer: units= 99999999999 , activation= "relu"''
   \<and> int_fails (tokens ''layer: units= 99999999999 , activation= "relu"'' ! 2)
   \<and> layers (parse_line 0 initial_spec ''layer: units= 99999999999 , activation= "relu"'')
       = [(2147483647, [])]\<close>
  by (simp add: tokens_eval int_fails_def initial_spec_def parse_line_def stream_defs)

end
